theory Spec2Isabelle
  imports Main "HOL-Library.Sublist"
begin

section \<open>BluePay payments API: data model\<close>

text \<open>
  The program is a FastAPI application (\<^verbatim>\<open>main.py\<close>) over a MongoDB database, with
  pydantic request schemas (\<^verbatim>\<open>schemas.py\<close>). Documents are Python dicts; a dict is
  modelled as a map from keys to values. The values that occur are \<^verbatim>\<open>None\<close>,
  integers, strings, BSON object ids and datetimes.

  An object id is represented by the text that \<^verbatim>\<open>str\<close> gives for it, a datetime by the
  text that \<^verbatim>\<open>isoformat()\<close> gives for it.
\<close>

datatype ObjectId = Oid (hex: string)

datatype val = VNone | VInt int | VStr string | VOid ObjectId | VDatetime string

type_synonym document = "string \<rightharpoonup> val"

text \<open>
  A collection is the list of its documents in insertion order; the database handle
  \<^verbatim>\<open>db\<close> maps a collection name to the collection (\<^verbatim>\<open>db["payment"]\<close>). The module-level
  handle may be \<^verbatim>\<open>None\<close>, hence \<open>database option\<close>.
\<close>

type_synonym collection = "document list"

type_synonym database = "string \<Rightarrow> collection"

text \<open>
  Exceptions raised by the store helpers of \<^verbatim>\<open>database.py\<close>, and the errors an endpoint
  answers with. \<open>HTTPException\<close> carries the status code and the detail; the detail is
  either a literal message of \<^verbatim>\<open>main.py\<close> or \<^verbatim>\<open>str(e)\<close> of a caught store exception.
  \<open>RequestValidationError\<close> is the rejection (422) of a request body that does not
  satisfy the pydantic schema; it lists the offending fields. \<open>Unhandled\<close> is an
  exception that no handler catches.
\<close>

datatype exn = Conflict | DatabaseUnavailable | InvalidLimit

datatype detail = Message string | StrOf exn

datatype error =
    HTTPException (status_code: nat) (error_detail: detail)
  | RequestValidationError "string list"
  | Unhandled string

subsection \<open>\<^verbatim>\<open>schemas.py\<close>: the \<^verbatim>\<open>Payment\<close> model\<close>

text \<open>
  The JSON body of \<^verbatim>\<open>POST /api/payments\<close> as it arrives: \<open>body_status = None\<close> is an
  absent \<^verbatim>\<open>status\<close> key, and likewise for the two optional strings.
\<close>

record payment_body =
  body_amount :: int
  body_currency :: string
  body_description :: "string option"
  body_customer_id :: "string option"
  body_status :: "string option"

record Payment =
  amount :: int
  currency :: string
  description :: "string option"
  customer_id :: "string option"
  status :: string

text \<open>
  The field constraints of the model: \<^verbatim>\<open>amount: int = Field(..., ge=1)\<close>,
  \<^verbatim>\<open>currency: str = Field(..., min_length=3, max_length=3)\<close>,
  \<^verbatim>\<open>status: Literal['authorized','captured','failed'] = Field('authorized')\<close>.
\<close>

definition status_literal :: "string \<Rightarrow> bool" where
  "status_literal s = (s = ''authorized'' \<or> s = ''captured'' \<or> s = ''failed'')"

definition Payment_errors :: "payment_body \<Rightarrow> string list" where
  "Payment_errors b =
     (if body_amount b \<ge> 1 then [] else [''amount'']) @
     (if length (body_currency b) \<ge> 3 \<and> length (body_currency b) \<le> 3 then [] else [''currency'']) @
     (case body_status b of None \<Rightarrow> [] | Some s \<Rightarrow> if status_literal s then [] else [''status''])"

definition Payment_validate :: "payment_body \<Rightarrow> error + Payment" where
  "Payment_validate b =
     (if Payment_errors b = [] then
        Inr \<lparr> amount = body_amount b, currency = body_currency b,
              description = body_description b, customer_id = body_customer_id b,
              status = (case body_status b of None \<Rightarrow> ''authorized'' | Some s \<Rightarrow> s) \<rparr>
      else Inl (RequestValidationError (Payment_errors b)))"

definition opt_str :: "string option \<Rightarrow> val" where
  "opt_str x = (case x of None \<Rightarrow> VNone | Some s \<Rightarrow> VStr s)"

definition model_dump :: "Payment \<Rightarrow> document" where
  "model_dump p =
     [''amount'' \<mapsto> VInt (amount p), ''currency'' \<mapsto> VStr (currency p),
      ''description'' \<mapsto> opt_str (description p),
      ''customer_id'' \<mapsto> opt_str (customer_id p),
      ''status'' \<mapsto> VStr (status p)]"

subsection \<open>Python's \<^verbatim>\<open>str\<close> on the values of a document\<close>

fun dec :: "nat \<Rightarrow> string" where
  "dec n = (if n < 10 then [char_of (48 + n)] else dec (n div 10) @ [char_of (48 + n mod 10)])"

fun py_str :: "val \<Rightarrow> string" where
  "py_str VNone = ''None''"
| "py_str (VInt i) = (if i < 0 then CHR ''-'' # dec (nat (- i)) else dec (nat i))"
| "py_str (VStr s) = s"
| "py_str (VOid oid) = hex oid"
| "py_str (VDatetime t) = map (\<lambda>c. if c = CHR ''T'' then CHR '' '' else c) t"

subsection \<open>\<^verbatim>\<open>main.py\<close>: \<^verbatim>\<open>serialize_doc\<close>\<close>

text \<open>
  \<^verbatim>\<open>hasattr(v, "isoformat")\<close> holds for the datetimes only; the loop replaces each of
  them by its ISO text and leaves every other value as it is.
\<close>

fun isoformat :: "val \<Rightarrow> val" where
  "isoformat (VDatetime t) = VStr t"
| "isoformat v = v"

definition serialize_doc :: "document \<Rightarrow> document" where
  "serialize_doc doc =
     (let d = (case doc ''_id'' of
                 None \<Rightarrow> doc
               | Some v \<Rightarrow> (doc(''_id'' := None))(''id'' \<mapsto> VStr (py_str v)))
      in (\<lambda>k. map_option isoformat (d k)))"

subsection \<open>The collection operations of the driver\<close>

text \<open>
  A query is a dict of key/value pairs; a document matches when it holds each of the
  values under its key. \<^verbatim>\<open>find_one\<close> returns the first match, \<^verbatim>\<open>update_one\<close> with
  \<^verbatim>\<open>{"$set": upd}\<close> sets the fields of \<open>upd\<close> in the first match.
\<close>

type_synonym query = "(string \<times> val) list"

definition matches :: "query \<Rightarrow> document \<Rightarrow> bool" where
  "matches q doc = list_all (\<lambda>(k, v). doc k = Some v) q"

definition find_one :: "collection \<Rightarrow> query \<Rightarrow> document option" where
  "find_one coll q = find (matches q) coll"

fun update_one :: "collection \<Rightarrow> query \<Rightarrow> (string \<times> val) list \<Rightarrow> collection" where
  "update_one [] q upd = []"
| "update_one (doc # docs) q upd =
     (if matches q doc then (doc ++ map_of upd) # docs
      else doc # update_one docs q upd)"

subsection \<open>\<^verbatim>\<open>database.py\<close>: the store helpers\<close>

text \<open>
  Modelled from the spec: \<^verbatim>\<open>create_document\<close> of \<^verbatim>\<open>database.py\<close>, which is not among the
  sources. The spec's ledger store has \<^verbatim>\<open>put_new(record) -> id\<close>, which persists the
  record under a generated opaque id and fails with \<^verbatim>\<open>Conflict\<close> if the id already
  exists. The generated id is an input of the model (\<open>new_id\<close>); the record is stored
  as given, with the id under \<^verbatim>\<open>_id\<close>, at the end of the collection. Without a
  database handle the helper raises.
\<close>

definition create_document ::
  "database option \<Rightarrow> ObjectId \<Rightarrow> string \<Rightarrow> document \<Rightarrow> (exn + string) \<times> database option" where
  "create_document db new_id name data =
     (case db of
        None \<Rightarrow> (Inl DatabaseUnavailable, db)
      | Some d \<Rightarrow>
          (case find_one (d name) [(''_id'', VOid new_id)] of
             Some _ \<Rightarrow> (Inl Conflict, db)
           | None \<Rightarrow>
               (Inr (py_str (VOid new_id)),
                Some (d(name := d name @ [data(''_id'' \<mapsto> VOid new_id)])))))"

text \<open>
  Modelled from the spec: \<^verbatim>\<open>get_documents\<close> of \<^verbatim>\<open>database.py\<close>, which is not among the
  sources. The spec's query service returns the records in creation order, restricted
  to those that match the filter exactly, and bounded by the limit; an invalid limit
  is the only error. Which limits are valid and how many records a valid limit
  admits is left open by the spec (\<^verbatim>\<open>max enforced e.g. 200\<close>), so the policy is the
  parameter \<open>bound\<close>: \<open>None\<close> for an invalid limit, otherwise the number of records.
\<close>

definition get_documents ::
  "(int \<Rightarrow> nat option) \<Rightarrow> database option \<Rightarrow> string \<Rightarrow> query \<Rightarrow> int \<Rightarrow> exn + collection" where
  "get_documents bound db name filt limit =
     (case db of
        None \<Rightarrow> Inl DatabaseUnavailable
      | Some d \<Rightarrow>
          (case bound limit of
             None \<Rightarrow> Inl InvalidLimit
           | Some n \<Rightarrow> Inr (take n (filter (matches filt) (d name)))))"

section \<open>\<^verbatim>\<open>main.py\<close>: the payment endpoints\<close>

text \<open>
  \<^verbatim>\<open>authorize_payment\<close> is the handler body: it dumps the validated model, overwrites
  the status, and stores the document; any exception becomes a 500.
\<close>

definition authorize_payment ::
  "database option \<Rightarrow> ObjectId \<Rightarrow> Payment \<Rightarrow> (error + string) \<times> database option" where
  "authorize_payment db new_id payload =
     (let data = model_dump payload;
          data = data(''status'' \<mapsto> VStr ''authorized'')
      in case create_document db new_id ''payment'' data of
           (Inr new, db') \<Rightarrow> (Inr new, db')
         | (Inl e, db') \<Rightarrow> (Inl (HTTPException 500 (StrOf e)), db'))"

text \<open>
  The endpoint \<^verbatim>\<open>POST /api/payments\<close>: the framework validates the body against
  \<^verbatim>\<open>PaymentSchema\<close> and calls the handler only with a valid model.
\<close>

definition AuthorizePayment ::
  "database option \<Rightarrow> ObjectId \<Rightarrow> payment_body \<Rightarrow> (error + string) \<times> database option" where
  "AuthorizePayment db new_id body =
     (case Payment_validate body of
        Inl e \<Rightarrow> (Inl e, db)
      | Inr payload \<Rightarrow> authorize_payment db new_id payload)"

text \<open>
  \<^verbatim>\<open>capture_payment\<close>. The constructor \<^verbatim>\<open>ObjectId(payment_id)\<close> belongs to the BSON
  library; it is the parameter \<open>ObjectId\<close>, with \<open>None\<close> for the exception it raises
  on a string that is not an object id. A document found by its \<^verbatim>\<open>_id\<close> is a non-empty
  dict, so \<^verbatim>\<open>not doc\<close> is the case that nothing was found. Were the second
  \<^verbatim>\<open>find_one\<close> to return \<^verbatim>\<open>None\<close>, \<^verbatim>\<open>serialize_doc(None)\<close> would raise a \<^verbatim>\<open>TypeError\<close>.
\<close>

definition capture_payment ::
  "(string \<Rightarrow> ObjectId option) \<Rightarrow> database option \<Rightarrow> string
     \<Rightarrow> (error + document) \<times> database option" where
  "capture_payment ObjectId db payment_id =
     (case db of
        None \<Rightarrow> (Inl (HTTPException 500 (Message ''Database not available'')), db)
      | Some d \<Rightarrow>
          (case ObjectId payment_id of
             None \<Rightarrow> (Inl (HTTPException 400 (Message ''Invalid payment id'')), db)
           | Some oid \<Rightarrow>
               (case find_one (d ''payment'') [(''_id'', VOid oid)] of
                  None \<Rightarrow> (Inl (HTTPException 404 (Message ''Payment not found'')), db)
                | Some doc \<Rightarrow>
                    if doc ''status'' = Some (VStr ''captured'') then (Inr (serialize_doc doc), db)
                    else
                      let d' = d(''payment'' :=
                                   update_one (d ''payment'') [(''_id'', VOid oid)]
                                     [(''status'', VStr ''captured'')])
                      in (case find_one (d' ''payment'') [(''_id'', VOid oid)] of
                            None \<Rightarrow> (Inl (Unhandled ''TypeError''), Some d')
                          | Some updated \<Rightarrow> (Inr (serialize_doc updated), Some d')))))"

text \<open>
  \<^verbatim>\<open>list_payments\<close>: \<^verbatim>\<open>if status:\<close> is false for an absent and for an empty status, and
  then the filter stays empty.
\<close>

definition list_payments ::
  "(int \<Rightarrow> nat option) \<Rightarrow> database option \<Rightarrow> int \<Rightarrow> string option \<Rightarrow> error + document list" where
  "list_payments bound db limit st =
     (let filt = (case st of
                    None \<Rightarrow> []
                  | Some s \<Rightarrow> if s \<noteq> [] then [(''status'', VStr s)] else [])
      in case get_documents bound db ''payment'' filt limit of
           Inr docs \<Rightarrow> Inr (map serialize_doc docs)
         | Inl e \<Rightarrow> Inl (HTTPException 500 (StrOf e)))"

section \<open>Observations on the store and concrete instances\<close>

text \<open>
  \<open>stored_field db name oid k\<close> reads field \<open>k\<close> of the document stored under \<open>oid\<close> in
  collection \<open>name\<close>: \<open>None\<close> when there is no database, no such document, or no such
  field in it.
\<close>

definition stored_field :: "database option \<Rightarrow> string \<Rightarrow> ObjectId \<Rightarrow> string \<Rightarrow> val option" where
  "stored_field db name oid k =
     (case db of
        None \<Rightarrow> None
      | Some d \<Rightarrow>
          (case find_one (d name) [(''_id'', VOid oid)] of
             None \<Rightarrow> None
           | Some doc \<Rightarrow> doc k))"

text \<open>
  The instances below are used to run the model. \<open>example_ObjectId\<close> is the constructor
  on lower-case hexadecimal text of length 24 (which the BSON library accepts, giving
  the id whose text it is) and on text of any other length (which it rejects).
  \<open>example_bound\<close> admits the limits from 1 to 200.
\<close>

definition example_ObjectId :: "string \<Rightarrow> ObjectId option" where
  "example_ObjectId s =
     (if length s = 24 \<and> list_all (\<lambda>c. c \<in> set ''0123456789abcdef'') s then Some (Oid s)
      else None)"

definition example_bound :: "int \<Rightarrow> nat option" where
  "example_bound l = (if 1 \<le> l \<and> l \<le> 200 then Some (nat l) else None)"

definition pay_authorized :: document where
  "pay_authorized =
     [''_id'' \<mapsto> VOid (Oid ''65a000000000000000000001''), ''amount'' \<mapsto> VInt 1000,
      ''currency'' \<mapsto> VStr ''USD'', ''description'' \<mapsto> VNone, ''customer_id'' \<mapsto> VNone,
      ''status'' \<mapsto> VStr ''authorized'']"

definition pay_captured :: document where
  "pay_captured =
     [''_id'' \<mapsto> VOid (Oid ''65a000000000000000000002''), ''amount'' \<mapsto> VInt 250,
      ''currency'' \<mapsto> VStr ''EUR'', ''description'' \<mapsto> VStr ''order 7'', ''customer_id'' \<mapsto> VNone,
      ''status'' \<mapsto> VStr ''captured'']"

definition pay_failed :: document where
  "pay_failed =
     [''_id'' \<mapsto> VOid (Oid ''65a000000000000000000003''), ''amount'' \<mapsto> VInt 75,
      ''currency'' \<mapsto> VStr ''GBP'', ''description'' \<mapsto> VNone, ''customer_id'' \<mapsto> VNone,
      ''status'' \<mapsto> VStr ''failed'']"

definition example_db :: database where
  "example_db name = (if name = ''payment'' then [pay_authorized, pay_captured, pay_failed] else [])"

definition empty_db :: database where
  "empty_db name = []"

definition body_usd :: payment_body where
  "body_usd = \<lparr> body_amount = 1000, body_currency = ''usd'', body_description = None,
                body_customer_id = None, body_status = None \<rparr>"

definition body_nonexistent :: payment_body where
  "body_nonexistent = \<lparr> body_amount = 500, body_currency = ''USD'', body_description = None,
                        body_customer_id = Some ''nonexistent'', body_status = None \<rparr>"

definition body_zero :: payment_body where
  "body_zero = \<lparr> body_amount = 0, body_currency = ''USD'', body_description = None,
                 body_customer_id = None, body_status = None \<rparr>"

definition body_captured :: payment_body where
  "body_captured = \<lparr> body_amount = 1200, body_currency = ''CHF'', body_description = Some ''deposit'',
                     body_customer_id = None, body_status = Some ''captured'' \<rparr>"

section \<open>Auxiliary facts\<close>

declare dec.simps [simp del]

lemma serialize_doc_field:
  "k \<noteq> ''_id'' \<Longrightarrow> k \<noteq> ''id'' \<Longrightarrow> serialize_doc doc k = map_option isoformat (doc k)"
  by (simp add: serialize_doc_def split: option.split)

lemma serialize_doc_status:
  "doc ''status'' = Some (VStr s) \<Longrightarrow> serialize_doc doc ''status'' = Some (VStr s)"
  by (simp add: serialize_doc_field)

lemma matches_Nil [simp]: "matches [] doc"
  by (simp add: matches_def)

lemma matches_single [simp]: "matches [(k, v)] doc \<longleftrightarrow> doc k = Some v"
  by (simp add: matches_def)

lemma find_app:
  "find P (xs @ ys) = (case find P xs of None \<Rightarrow> find P ys | Some x \<Rightarrow> Some x)"
  by (induction xs) simp_all

lemma find_one_update_one_id:
  "find_one (update_one coll [(''_id'', v)] [(''status'', x)]) [(''_id'', v)]
     = map_option (\<lambda>doc. doc(''status'' \<mapsto> x)) (find_one coll [(''_id'', v)])"
  by (induction coll) (auto simp: find_one_def fun_eq_iff)

lemma stored_field_appended:
  assumes "find_one (d name) [(''_id'', VOid oid)] = None" and "doc ''_id'' = Some (VOid oid)"
  shows "stored_field (Some (d(name := d name @ [doc]))) name oid k = doc k"
  using assms by (simp add: stored_field_def find_one_def find_app)

text \<open>The three paths of \<^verbatim>\<open>capture_payment\<close> once the id is parsed and the record found.\<close>

lemma capture_payment_captured:
  assumes "ObjectId payment_id = Some oid"
    and "find_one (d ''payment'') [(''_id'', VOid oid)] = Some doc"
    and "doc ''status'' = Some (VStr ''captured'')"
  shows "capture_payment ObjectId (Some d) payment_id = (Inr (serialize_doc doc), Some d)"
  using assms by (simp add: capture_payment_def)

lemma capture_payment_other:
  assumes "ObjectId payment_id = Some oid"
    and "find_one (d ''payment'') [(''_id'', VOid oid)] = Some doc"
    and "doc ''status'' \<noteq> Some (VStr ''captured'')"
  shows "capture_payment ObjectId (Some d) payment_id =
           (Inr (serialize_doc (doc(''status'' \<mapsto> VStr ''captured''))),
            Some (d(''payment'' := update_one (d ''payment'') [(''_id'', VOid oid)]
                                     [(''status'', VStr ''captured'')])))"
  using assms by (simp add: capture_payment_def find_one_update_one_id Let_def)

text \<open>
  A body that passes validation, a database handle and an unused id: the endpoint
  answers with the id and appends exactly the dumped model with the status overwritten.
\<close>

lemma AuthorizePayment_ok:
  assumes "Payment_errors b = []"
    and "find_one (d ''payment'') [(''_id'', VOid new_id)] = None"
  shows "AuthorizePayment (Some d) new_id b =
           (Inr (hex new_id),
            Some (d(''payment'' := d ''payment'' @
               [[''amount'' \<mapsto> VInt (body_amount b), ''currency'' \<mapsto> VStr (body_currency b),
                 ''description'' \<mapsto> opt_str (body_description b),
                 ''customer_id'' \<mapsto> opt_str (body_customer_id b),
                 ''status'' \<mapsto> VStr ''authorized'', ''_id'' \<mapsto> VOid new_id]])))"
  using assms
  by (simp add: AuthorizePayment_def Payment_validate_def authorize_payment_def
      create_document_def model_dump_def)

lemma Payment_errors_Nil_iff:
  "Payment_errors b = [] \<longleftrightarrow>
     body_amount b \<ge> 1 \<and> length (body_currency b) = 3 \<and>
     (case body_status b of None \<Rightarrow> True | Some s \<Rightarrow> status_literal s)"
  by (auto simp: Payment_errors_def split: option.splits)

lemma AuthorizePayment_invalid:
  "Payment_errors b \<noteq> [] \<Longrightarrow>
     AuthorizePayment db new_id b = (Inl (RequestValidationError (Payment_errors b)), db)"
  by (simp add: AuthorizePayment_def Payment_validate_def)

text \<open>Facts about the concrete instances.\<close>

lemma example_find_authorized:
  "find_one (example_db ''payment'') [(''_id'', VOid (Oid ''65a000000000000000000001''))] = Some pay_authorized"
  by (simp add: example_db_def find_one_def pay_authorized_def)

lemma example_find_captured:
  "find_one (example_db ''payment'') [(''_id'', VOid (Oid ''65a000000000000000000002''))] = Some pay_captured"
  by (simp add: example_db_def find_one_def pay_authorized_def pay_captured_def)

lemma example_find_failed:
  "find_one (example_db ''payment'') [(''_id'', VOid (Oid ''65a000000000000000000003''))] = Some pay_failed"
  by (simp add: example_db_def find_one_def pay_authorized_def pay_captured_def pay_failed_def)

lemma example_find_missing:
  "find_one (example_db ''payment'') [(''_id'', VOid (Oid ''65a000000000000000000009''))] = None"
  by (simp add: example_db_def find_one_def pay_authorized_def pay_captured_def pay_failed_def)

lemma example_ObjectId_values:
  "example_ObjectId ''65a000000000000000000001'' = Some (Oid ''65a000000000000000000001'')"
  "example_ObjectId ''65a000000000000000000002'' = Some (Oid ''65a000000000000000000002'')"
  "example_ObjectId ''65a000000000000000000003'' = Some (Oid ''65a000000000000000000003'')"
  "example_ObjectId ''65a000000000000000000009'' = Some (Oid ''65a000000000000000000009'')"
  "example_ObjectId ''not-an-id'' = None"
  by (simp_all add: example_ObjectId_def)

lemma example_bodies_valid:
  "Payment_errors body_usd = []" "Payment_errors body_nonexistent = []"
  "Payment_errors body_captured = []"
  by (simp_all add: Payment_errors_def body_usd_def body_nonexistent_def body_captured_def
      status_literal_def)

lemma empty_db_find: "find_one (empty_db name) q = None"
  by (simp add: empty_db_def find_one_def)

lemma example_statuses:
  "pay_captured ''status'' = Some (VStr ''captured'')"
  "pay_failed ''status'' = Some (VStr ''failed'')"
  "pay_authorized ''status'' = Some (VStr ''authorized'')"
  by (simp_all add: pay_captured_def pay_failed_def pay_authorized_def)

section \<open>Capture\<close>

text \<open>
  C1. For every stored payment whose current status is \<^verbatim>\<open>captured\<close>, capturing it by its
  id returns the existing record (serialized, with status \<^verbatim>\<open>captured\<close>) and no error.
  The payment is stored in the \<^verbatim>\<open>payment\<close> collection of an available database, and
  \<open>payment_id\<close> is the text of its id.
\<close>

theorem capture_captured_idempotent:
  assumes "ObjectId payment_id = Some oid"
    and "find_one (d ''payment'') [(''_id'', VOid oid)] = Some doc"
    and "doc ''status'' = Some (VStr ''captured'')"
  shows "fst (capture_payment ObjectId (Some d) payment_id) = Inr (serialize_doc doc) \<and>
         serialize_doc doc ''status'' = Some (VStr ''captured'')"
  using assms by (simp add: capture_payment_captured serialize_doc_status)

theorem capture_captured_idempotent_witness:
  "example_ObjectId ''65a000000000000000000002'' = Some (Oid ''65a000000000000000000002'') \<and>
   find_one (example_db ''payment'') [(''_id'', VOid (Oid ''65a000000000000000000002''))]
     = Some pay_captured \<and>
   pay_captured ''status'' = Some (VStr ''captured'') \<and>
   fst (capture_payment example_ObjectId (Some example_db) ''65a000000000000000000002'')
     = Inr (serialize_doc pay_captured) \<and>
   serialize_doc pay_captured ''status'' = Some (VStr ''captured'')"
  using capture_captured_idempotent [where ObjectId = example_ObjectId
      and payment_id = "''65a000000000000000000002''"
      and oid = "Oid ''65a000000000000000000002''" and d = example_db and doc = pay_captured, OF example_ObjectId_values(2)
      example_find_captured example_statuses(1)]
  by (simp add: example_ObjectId_values example_find_captured example_statuses)

text \<open>
  The consequence for two captures in a row: whatever the status of the stored payment,
  a capture that succeeds leaves a store in which the next capture of the same id
  returns the same record, with status \<^verbatim>\<open>captured\<close>, and writes nothing.
\<close>

lemma capture_payment_twice:
  assumes "ObjectId payment_id = Some oid"
    and "find_one (d ''payment'') [(''_id'', VOid oid)] = Some doc"
    and "capture_payment ObjectId (Some d) payment_id = (r, db')"
  shows "\<exists>rec. r = Inr rec \<and> rec ''status'' = Some (VStr ''captured'') \<and>
           capture_payment ObjectId db' payment_id = (Inr rec, db')"
proof (cases "doc ''status'' = Some (VStr ''captured'')")
  case True
  with assms show ?thesis
    by (auto simp: capture_payment_captured serialize_doc_status)
next
  case False
  let ?doc = "doc(''status'' \<mapsto> VStr ''captured'')"
  let ?d = "d(''payment'' := update_one (d ''payment'') [(''_id'', VOid oid)]
                               [(''status'', VStr ''captured'')])"
  from False assms have r: "r = Inr (serialize_doc ?doc)" and db': "db' = Some ?d"
    by (simp_all add: capture_payment_other)
  have "find_one (?d ''payment'') [(''_id'', VOid oid)] = Some ?doc"
    using assms(2) by (simp add: find_one_update_one_id)
  then have "capture_payment ObjectId (Some ?d) payment_id = (Inr (serialize_doc ?doc), Some ?d)"
    using assms(1) by (simp add: capture_payment_captured [where oid = oid])
  with r db' show ?thesis
    by (simp add: serialize_doc_status)
qed

text \<open>
  C2 as stated fails: capturing the stored payment with status \<^verbatim>\<open>failed\<close> is not an
  error, and afterwards its stored status is \<^verbatim>\<open>captured\<close>.
\<close>

theorem capture_failed_counterexample:
  "\<not> isl (fst (capture_payment example_ObjectId (Some example_db) ''65a000000000000000000003'')) \<and>
   stored_field (snd (capture_payment example_ObjectId (Some example_db) ''65a000000000000000000003''))
     ''payment'' (Oid ''65a000000000000000000003'') ''status'' = Some (VStr ''captured'')"
proof -
  have "pay_failed ''status'' \<noteq> Some (VStr ''captured'')"
    by (simp add: example_statuses)
  from capture_payment_other [where ObjectId = example_ObjectId
      and payment_id = "''65a000000000000000000003''"
      and oid = "Oid ''65a000000000000000000003''" and d = example_db and doc = pay_failed,
      OF example_ObjectId_values(3) example_find_failed this]
  show ?thesis
    by (simp add: stored_field_def find_one_update_one_id example_find_failed)
qed

text \<open>
  C2, amended. For every stored payment whose current status is \<^verbatim>\<open>failed\<close>, capturing it
  by its id succeeds: the stored status is set to \<^verbatim>\<open>captured\<close> and the updated record
  is returned. The code has no transition check and no \<^verbatim>\<open>InvalidTransition\<close> error.
\<close>

theorem capture_failed_is_captured:
  assumes "ObjectId payment_id = Some oid"
    and "find_one (d ''payment'') [(''_id'', VOid oid)] = Some doc"
    and "doc ''status'' = Some (VStr ''failed'')"
  shows "fst (capture_payment ObjectId (Some d) payment_id)
           = Inr (serialize_doc (doc(''status'' \<mapsto> VStr ''captured''))) \<and>
         serialize_doc (doc(''status'' \<mapsto> VStr ''captured'')) ''status'' = Some (VStr ''captured'') \<and>
         stored_field (snd (capture_payment ObjectId (Some d) payment_id)) ''payment'' oid ''status''
           = Some (VStr ''captured'')"
proof -
  from assms(3) have "doc ''status'' \<noteq> Some (VStr ''captured'')" by simp
  from capture_payment_other [where ObjectId = ObjectId and payment_id = payment_id
      and oid = oid and d = d and doc = doc, OF assms(1,2) this] assms(2) show ?thesis
    by (simp add: stored_field_def find_one_update_one_id serialize_doc_status)
qed

theorem capture_failed_is_captured_witness:
  "example_ObjectId ''65a000000000000000000003'' = Some (Oid ''65a000000000000000000003'') \<and>
   find_one (example_db ''payment'') [(''_id'', VOid (Oid ''65a000000000000000000003''))]
     = Some pay_failed \<and>
   pay_failed ''status'' = Some (VStr ''failed'') \<and>
   fst (capture_payment example_ObjectId (Some example_db) ''65a000000000000000000003'')
     = Inr (serialize_doc (pay_failed(''status'' \<mapsto> VStr ''captured''))) \<and>
   stored_field (snd (capture_payment example_ObjectId (Some example_db) ''65a000000000000000000003''))
     ''payment'' (Oid ''65a000000000000000000003'') ''status'' = Some (VStr ''captured'')"
  using capture_failed_is_captured [where ObjectId = example_ObjectId
      and payment_id = "''65a000000000000000000003''"
      and oid = "Oid ''65a000000000000000000003''" and d = example_db and doc = pay_failed, OF example_ObjectId_values(3)
      example_find_failed example_statuses(2)]
  by (simp add: example_ObjectId_values example_find_failed example_statuses)

text \<open>
  C9. Capturing an already captured payment writes nothing: the database after the call
  is the database before it, so the stored record is unchanged in all its fields.
\<close>

theorem capture_captured_no_write:
  assumes "ObjectId payment_id = Some oid"
    and "find_one (d ''payment'') [(''_id'', VOid oid)] = Some doc"
    and "doc ''status'' = Some (VStr ''captured'')"
  shows "snd (capture_payment ObjectId (Some d) payment_id) = Some d \<and>
         find_one (d ''payment'') [(''_id'', VOid oid)] = Some doc"
  using assms by (simp add: capture_payment_captured)

theorem capture_captured_no_write_witness:
  "example_ObjectId ''65a000000000000000000002'' = Some (Oid ''65a000000000000000000002'') \<and>
   find_one (example_db ''payment'') [(''_id'', VOid (Oid ''65a000000000000000000002''))]
     = Some pay_captured \<and>
   pay_captured ''status'' = Some (VStr ''captured'') \<and>
   snd (capture_payment example_ObjectId (Some example_db) ''65a000000000000000000002'')
     = Some example_db"
  using capture_captured_no_write [where ObjectId = example_ObjectId
      and payment_id = "''65a000000000000000000002''"
      and oid = "Oid ''65a000000000000000000002''" and d = example_db and doc = pay_captured, OF example_ObjectId_values(2)
      example_find_captured example_statuses(1)]
  by (simp add: example_ObjectId_values example_find_captured example_statuses)

text \<open>
  C10. With a database handle, a \<open>payment_id\<close> that the object-id constructor rejects is
  answered with 400 \<^verbatim>\<open>Invalid payment id\<close>, whatever the store holds and without changing
  it; an id that parses but has no payment record is answered with 404
  \<^verbatim>\<open>Payment not found\<close>.
\<close>

theorem capture_invalid_or_missing:
  "(ObjectId payment_id = None \<longrightarrow>
      capture_payment ObjectId (Some d) payment_id
        = (Inl (HTTPException 400 (Message ''Invalid payment id'')), Some d)) \<and>
   (\<forall>oid. ObjectId payment_id = Some oid \<longrightarrow>
      find_one (d ''payment'') [(''_id'', VOid oid)] = None \<longrightarrow>
      capture_payment ObjectId (Some d) payment_id
        = (Inl (HTTPException 404 (Message ''Payment not found'')), Some d))"
  by (simp add: capture_payment_def)

theorem capture_invalid_or_missing_witness:
  "example_ObjectId ''not-an-id'' = None \<and>
   capture_payment example_ObjectId (Some example_db) ''not-an-id''
     = (Inl (HTTPException 400 (Message ''Invalid payment id'')), Some example_db) \<and>
   example_ObjectId ''65a000000000000000000009'' = Some (Oid ''65a000000000000000000009'') \<and>
   find_one (example_db ''payment'') [(''_id'', VOid (Oid ''65a000000000000000000009''))] = None \<and>
   capture_payment example_ObjectId (Some example_db) ''65a000000000000000000009''
     = (Inl (HTTPException 404 (Message ''Payment not found'')), Some example_db)"
  using capture_invalid_or_missing [of example_ObjectId "''not-an-id''" example_db]
    capture_invalid_or_missing [of example_ObjectId "''65a000000000000000000009''" example_db]
  by (simp add: example_ObjectId_values example_find_missing)


lemma example_body_fields:
  "body_amount body_usd = 1000" "body_currency body_usd = ''usd''" "body_status body_usd = None"
  "body_customer_id body_nonexistent = Some ''nonexistent''"
  "body_amount body_zero = 0" "Payment_errors body_zero = [''amount'']"
  "body_status body_captured = Some ''captured''"
  by (simp_all add: body_usd_def body_nonexistent_def body_zero_def body_captured_def
      Payment_errors_def)

lemma example_db_customer: "example_db ''customer'' = []"
  by (simp add: example_db_def)

section \<open>Authorize\<close>

text \<open>
  C3 as stated fails: authorizing amount 1000 in currency \<^verbatim>\<open>usd\<close> succeeds, and the record
  created has no \<^verbatim>\<open>version\<close> field, so its version is not 0.
\<close>

theorem authorize_version_counterexample:
  "fst (AuthorizePayment (Some empty_db) (Oid ''65a00000000000000000000a'') body_usd)
     = Inr ''65a00000000000000000000a'' \<and>
   stored_field (snd (AuthorizePayment (Some empty_db) (Oid ''65a00000000000000000000a'') body_usd))
     ''payment'' (Oid ''65a00000000000000000000a'') ''version'' \<noteq> Some (VInt 0)"
  by (simp add: AuthorizePayment_def Payment_validate_def Payment_errors_def
      authorize_payment_def create_document_def model_dump_def stored_field_def
      find_one_def find_app empty_db_def opt_str_def body_usd_def)

text \<open>
  C3, amended. For every body with amount at least 1, a currency of three characters and
  a status that is absent or one of the three literals, on an available database and
  with an unused generated id, the endpoint succeeds with the id, and the created
  payment record has status \<^verbatim>\<open>authorized\<close>; it has no \<^verbatim>\<open>version\<close> field.
\<close>

theorem authorize_creates_authorized:
  assumes "body_amount b \<ge> 1" and "length (body_currency b) = 3"
    and "case body_status b of None \<Rightarrow> True | Some s \<Rightarrow> status_literal s"
    and "find_one (d ''payment'') [(''_id'', VOid new_id)] = None"
  shows "fst (AuthorizePayment (Some d) new_id b) = Inr (hex new_id) \<and>
         stored_field (snd (AuthorizePayment (Some d) new_id b)) ''payment'' new_id ''status''
           = Some (VStr ''authorized'') \<and>
         stored_field (snd (AuthorizePayment (Some d) new_id b)) ''payment'' new_id ''version''
           = None"
proof -
  from assms(1-3) have "Payment_errors b = []"
    by (simp add: Payment_errors_Nil_iff)
  from AuthorizePayment_ok [where b = b and d = d and new_id = new_id, OF this assms(4)] show ?thesis
    by (simp add: stored_field_appended [where d = d and name = "''payment''" and oid = new_id, OF assms(4)])
qed

theorem authorize_creates_authorized_witness:
  "body_amount body_usd \<ge> 1 \<and> length (body_currency body_usd) = 3 \<and>
   body_status body_usd = None \<and>
   find_one (example_db ''payment'') [(''_id'', VOid (Oid ''65a000000000000000000009''))] = None \<and>
   fst (AuthorizePayment (Some example_db) (Oid ''65a000000000000000000009'') body_usd)
     = Inr ''65a000000000000000000009'' \<and>
   stored_field (snd (AuthorizePayment (Some example_db) (Oid ''65a000000000000000000009'') body_usd))
     ''payment'' (Oid ''65a000000000000000000009'') ''status'' = Some (VStr ''authorized'') \<and>
   stored_field (snd (AuthorizePayment (Some example_db) (Oid ''65a000000000000000000009'') body_usd))
     ''payment'' (Oid ''65a000000000000000000009'') ''version'' = None"
  using authorize_creates_authorized [where b = body_usd and d = example_db
      and new_id = "Oid ''65a000000000000000000009''"]
  by (simp add: example_find_missing example_body_fields)

text \<open>
  C4 as stated fails: authorizing with currency \<^verbatim>\<open>usd\<close> stores \<^verbatim>\<open>usd\<close>, not \<^verbatim>\<open>USD\<close>.
\<close>

theorem authorize_currency_counterexample:
  "stored_field (snd (AuthorizePayment (Some empty_db) (Oid ''65a00000000000000000000a'') body_usd))
     ''payment'' (Oid ''65a00000000000000000000a'') ''currency'' = Some (VStr ''usd'') \<and>
   stored_field (snd (AuthorizePayment (Some empty_db) (Oid ''65a00000000000000000000a'') body_usd))
     ''payment'' (Oid ''65a00000000000000000000a'') ''currency'' \<noteq> Some (VStr ''USD'')"
  by (simp add: AuthorizePayment_def Payment_validate_def Payment_errors_def
      authorize_payment_def create_document_def model_dump_def stored_field_def
      find_one_def find_app empty_db_def opt_str_def body_usd_def)

text \<open>
  C4, amended. The currency is stored exactly as it was given, with no change of case:
  for every accepted body, the stored payment's currency is the input currency.
\<close>

theorem authorize_currency_as_given:
  assumes "Payment_errors b = []"
    and "find_one (d ''payment'') [(''_id'', VOid new_id)] = None"
  shows "stored_field (snd (AuthorizePayment (Some d) new_id b)) ''payment'' new_id ''currency''
           = Some (VStr (body_currency b))"
  using AuthorizePayment_ok [where b = b and d = d and new_id = new_id, OF assms]
  by (simp add: stored_field_appended [where d = d and name = "''payment''" and oid = new_id, OF assms(2)])

theorem authorize_currency_as_given_witness:
  "Payment_errors body_usd = [] \<and>
   find_one (example_db ''payment'') [(''_id'', VOid (Oid ''65a000000000000000000009''))] = None \<and>
   stored_field (snd (AuthorizePayment (Some example_db) (Oid ''65a000000000000000000009'') body_usd))
     ''payment'' (Oid ''65a000000000000000000009'') ''currency'' = Some (VStr ''usd'')"
  using authorize_currency_as_given [where b = body_usd and d = example_db
      and new_id = "Oid ''65a000000000000000000009''"]
  by (simp add: example_find_missing example_bodies_valid example_body_fields)

text \<open>
  C5 as stated fails: with no customer in the store at all, authorizing amount 500 in
  \<^verbatim>\<open>USD\<close> for customer \<^verbatim>\<open>nonexistent\<close> is not an error, and a payment record with that
  customer id is created.
\<close>

theorem authorize_customer_counterexample:
  "empty_db ''customer'' = [] \<and>
   \<not> isl (fst (AuthorizePayment (Some empty_db) (Oid ''65a00000000000000000000a'') body_nonexistent)) \<and>
   stored_field
     (snd (AuthorizePayment (Some empty_db) (Oid ''65a00000000000000000000a'') body_nonexistent))
     ''payment'' (Oid ''65a00000000000000000000a'') ''customer_id'' = Some (VStr ''nonexistent'')"
  by (simp add: AuthorizePayment_def Payment_validate_def Payment_errors_def
      authorize_payment_def create_document_def model_dump_def stored_field_def
      find_one_def find_app empty_db_def opt_str_def body_nonexistent_def)

text \<open>
  C5, amended. The customer id is not looked up: for every accepted body that carries a
  customer id, whatever customers the store holds, the endpoint succeeds and the created
  payment record holds the customer id as given.
\<close>

theorem authorize_customer_unchecked:
  assumes "Payment_errors b = []"
    and "find_one (d ''payment'') [(''_id'', VOid new_id)] = None"
    and "body_customer_id b = Some c"
  shows "fst (AuthorizePayment (Some d) new_id b) = Inr (hex new_id) \<and>
         stored_field (snd (AuthorizePayment (Some d) new_id b)) ''payment'' new_id ''customer_id''
           = Some (VStr c)"
  using AuthorizePayment_ok [where b = b and d = d and new_id = new_id, OF assms(1,2)] assms(3)
  by (simp add: stored_field_appended [where d = d and name = "''payment''" and oid = new_id, OF assms(2)] opt_str_def)

theorem authorize_customer_unchecked_witness:
  "Payment_errors body_nonexistent = [] \<and>
   find_one (example_db ''payment'') [(''_id'', VOid (Oid ''65a000000000000000000009''))] = None \<and>
   body_customer_id body_nonexistent = Some ''nonexistent'' \<and>
   example_db ''customer'' = [] \<and>
   fst (AuthorizePayment (Some example_db) (Oid ''65a000000000000000000009'') body_nonexistent)
     = Inr ''65a000000000000000000009'' \<and>
   stored_field
     (snd (AuthorizePayment (Some example_db) (Oid ''65a000000000000000000009'') body_nonexistent))
     ''payment'' (Oid ''65a000000000000000000009'') ''customer_id'' = Some (VStr ''nonexistent'')"
  using authorize_customer_unchecked [where b = body_nonexistent and d = example_db
      and new_id = "Oid ''65a000000000000000000009''" and c = "''nonexistent''"]
  by (simp add: example_find_missing example_bodies_valid example_body_fields
      example_db_customer)

text \<open>
  C7. A body with amount 0 is rejected with a validation error that names the amount,
  before the handler runs: the answer is the same for every database (also for none),
  and the database is returned as it was, so no payment record is created.
\<close>

theorem authorize_zero_amount_rejected:
  assumes "body_amount b = 0"
  shows "AuthorizePayment db new_id b = (Inl (RequestValidationError (Payment_errors b)), db) \<and>
         ''amount'' \<in> set (Payment_errors b)"
proof -
  from assms have "''amount'' \<in> set (Payment_errors b)"
    by (simp add: Payment_errors_def)
  moreover from this have "Payment_errors b \<noteq> []" by auto
  ultimately show ?thesis
    by (simp add: AuthorizePayment_invalid)
qed

theorem authorize_zero_amount_rejected_witness:
  "body_amount body_zero = 0 \<and>
   AuthorizePayment (Some example_db) (Oid ''65a000000000000000000009'') body_zero
     = (Inl (RequestValidationError [''amount'']), Some example_db)"
  using authorize_zero_amount_rejected [where b = body_zero and db = "Some example_db"
      and new_id = "Oid ''65a000000000000000000009''"]
  by (simp add: example_body_fields)

text \<open>
  C8. Whenever the endpoint creates a payment, whatever status the body carries, the
  store afterwards is the store before with one record appended to the \<^verbatim>\<open>payment\<close>
  collection, and that record, found under the new id, has status \<^verbatim>\<open>authorized\<close>.
\<close>

theorem authorize_status_forced:
  assumes "fst (AuthorizePayment db new_id b) = Inr rid"
  shows "\<exists>d doc. db = Some d \<and>
           snd (AuthorizePayment db new_id b) = Some (d(''payment'' := d ''payment'' @ [doc])) \<and>
           doc ''status'' = Some (VStr ''authorized'') \<and>
           stored_field (snd (AuthorizePayment db new_id b)) ''payment'' new_id ''status''
             = Some (VStr ''authorized'')"
proof -
  have valid: "Payment_errors b = []"
  proof (rule ccontr)
    assume "Payment_errors b \<noteq> []"
    from AuthorizePayment_invalid [OF this] assms show False by simp
  qed
  from assms obtain d where d: "db = Some d"
    by (cases db)
      (auto simp: AuthorizePayment_def Payment_validate_def authorize_payment_def
        create_document_def split: if_splits)
  have fresh: "find_one (d ''payment'') [(''_id'', VOid new_id)] = None"
    using assms valid unfolding d
    by (cases "find_one (d ''payment'') [(''_id'', VOid new_id)]")
      (auto simp: AuthorizePayment_def Payment_validate_def authorize_payment_def
        create_document_def)
  let ?doc = "[''amount'' \<mapsto> VInt (body_amount b), ''currency'' \<mapsto> VStr (body_currency b),
               ''description'' \<mapsto> opt_str (body_description b),
               ''customer_id'' \<mapsto> opt_str (body_customer_id b),
               ''status'' \<mapsto> VStr ''authorized'', ''_id'' \<mapsto> VOid new_id]"
  from AuthorizePayment_ok [where b = b and d = d and new_id = new_id, OF valid fresh] d
  have "db = Some d \<and>
        snd (AuthorizePayment db new_id b) = Some (d(''payment'' := d ''payment'' @ [?doc])) \<and>
        ?doc ''status'' = Some (VStr ''authorized'') \<and>
        stored_field (snd (AuthorizePayment db new_id b)) ''payment'' new_id ''status''
          = Some (VStr ''authorized'')"
    by (simp add: stored_field_appended [where d = d and name = "''payment''" and oid = new_id,
          OF fresh])
  then show ?thesis by blast
qed

theorem authorize_status_forced_witness:
  "body_status body_captured = Some ''captured'' \<and>
   fst (AuthorizePayment (Some example_db) (Oid ''65a000000000000000000009'') body_captured)
     = Inr ''65a000000000000000000009'' \<and>
   stored_field (snd (AuthorizePayment (Some example_db) (Oid ''65a000000000000000000009'') body_captured))
     ''payment'' (Oid ''65a000000000000000000009'') ''status'' = Some (VStr ''authorized'')"
proof -
  have ok: "fst (AuthorizePayment (Some example_db) (Oid ''65a000000000000000000009'') body_captured)
     = Inr ''65a000000000000000000009''"
    by (simp add: AuthorizePayment_ok [where b = body_captured and d = example_db
          and new_id = "Oid ''65a000000000000000000009''", OF example_bodies_valid(3)
          example_find_missing])
  from authorize_status_forced [OF ok] ok show ?thesis
    by (auto simp: example_body_fields)
qed

section \<open>List\<close>

lemma example_filter_captured:
  "filter (matches [(''status'', VStr ''captured'')]) (example_db ''payment'') = [pay_captured]"
  by (simp add: example_db_def example_statuses)

lemma example_list_captured:
  "list_payments example_bound (Some example_db) 50 (Some ''captured'')
      = Inr [serialize_doc pay_captured]"
  by (simp add: list_payments_def get_documents_def example_bound_def example_filter_captured)

text \<open>
  C6. For every non-empty status filter, on an available database and with a limit that
  the store accepts, the endpoint returns the serialized form of a sublist of the
  \<^verbatim>\<open>payment\<close> collection, in the collection's (creation) order, and every record of it
  has exactly the filter value as its stored status, as has every returned record.
\<close>

theorem list_payments_filtered:
  assumes "s \<noteq> []" and "bound limit = Some n"
  shows "\<exists>docs. list_payments bound (Some d) limit (Some s) = Inr (map serialize_doc docs) \<and>
           subseq docs (d ''payment'') \<and>
           list_all (\<lambda>doc. doc ''status'' = Some (VStr s)) docs \<and>
           list_all (\<lambda>r. r ''status'' = Some (VStr s)) (map serialize_doc docs)"
proof -
  let ?found = "filter (matches [(''status'', VStr s)]) (d ''payment'')"
  let ?docs = "take n ?found"
  have res: "list_payments bound (Some d) limit (Some s) = Inr (map serialize_doc ?docs)"
    using assms by (simp add: list_payments_def get_documents_def)
  have "subseq ?docs ?found"
    by (rule prefix_imp_subseq [OF take_is_prefix])
  moreover have "subseq ?found (d ''payment'')"
    by (rule subseq_filter_left)
  ultimately have sub: "subseq ?docs (d ''payment'')"
    by (rule subseq_order.order_trans)
  have st: "doc ''status'' = Some (VStr s)" if "doc \<in> set ?docs" for doc
  proof -
    from that have "doc \<in> set ?found" by (rule in_set_takeD)
    then show ?thesis by simp
  qed
  then have all: "list_all (\<lambda>doc. doc ''status'' = Some (VStr s)) ?docs"
    unfolding list_all_iff by blast
  have "r ''status'' = Some (VStr s)" if "r \<in> set (map serialize_doc ?docs)" for r
  proof -
    from that obtain doc where "doc \<in> set ?docs" and "r = serialize_doc doc"
      unfolding set_map by blast
    then show ?thesis by (simp only: st serialize_doc_status)
  qed
  then have "list_all (\<lambda>r. r ''status'' = Some (VStr s)) (map serialize_doc ?docs)"
    unfolding list_all_iff by blast
  with res sub all show ?thesis by blast
qed

theorem list_payments_filtered_witness:
  "''captured'' \<noteq> [] \<and> example_bound 50 = Some 50 \<and>
   (\<exists>docs. list_payments example_bound (Some example_db) 50 (Some ''captured'')
       = Inr (map serialize_doc docs) \<and> subseq docs (example_db ''payment'')) \<and>
   list_payments example_bound (Some example_db) 50 (Some ''captured'')
     = Inr [serialize_doc pay_captured]"
proof -
  have b: "example_bound 50 = Some 50"
    by (simp add: example_bound_def)
  have ne: "''captured'' \<noteq> []"
    by simp
  from list_payments_filtered [where bound = example_bound and limit = 50 and n = 50
      and d = example_db, OF ne b]
  have "\<exists>docs. list_payments example_bound (Some example_db) 50 (Some ''captured'')
       = Inr (map serialize_doc docs) \<and> subseq docs (example_db ''payment'')"
    by blast
  with b ne example_list_captured show ?thesis
    by (simp only: simp_thms)
qed

end
